theory Spec2Isabelle
  imports Main
begin

section \<open>Data model of the room (api/src/core/Room.ts)\<close>

text \<open>
  The room engine is the class \<open>Room\<close>: one board, one websocket server with its set of
  clients, and a listener for every inbound frame. The model below follows the class
  member by member. Exceptions are values of \<open>error\<close>: \<open>JSON.parse\<close> throws a
  SyntaxError, a property read on \<open>undefined\<close> throws a TypeError, and the resolver
  fails with InvalidToken. The two collaborators that are imported and not part of the
  class, \<open>JSON.parse\<close> and \<open>verifyRoomToken\<close>, are parameters of the listener.
\<close>

datatype error = SyntaxError | TypeError | InvalidToken

text \<open>
  Modelled from the spec: the declarations of \<open>Cell\<close> and \<open>Board\<close> (module
  \<open>types/ServerMessage\<close>) are not among the sources; the fields are those of the board
  literal in the class and of the wire format \<open>{ goal: string, colors: string[] }\<close>.
\<close>

record Cell =
  goal :: string
  colors :: "string list"

text \<open>
  \<open>Board\<close> is the object \<open>{ board: Cell[][] }\<close>; its single field is the grid, so the
  model identifies the object with the grid: \<open>this.board.board\<close> is \<open>board room\<close>.
\<close>

type_synonym Board = "Cell list list"

text \<open>
  Modelled from the spec: the identity that \<open>verifyRoomToken\<close> (module
  \<open>auth/RoomAuth\<close>, not among the sources) returns is the pair \<open>{nickname, color}\<close>.
\<close>

record Identity =
  nickname :: string
  color :: string

text \<open>
  Modelled from the spec: the declaration of \<open>RoomAction\<close> (module \<open>types/RoomAction\<close>)
  is not among the sources; the records follow the wire format
  \<open>{ action, authToken, payload?: { row?: int, col?: int, message?: string } }\<close>.
  An absent field is \<open>undefined\<close> in the source and \<open>None\<close> here. The action is kept
  as the string the \<open>switch\<close> compares.
\<close>

record Payload =
  row :: "int option"
  col :: "int option"
  message :: "string option"

record RoomAction =
  action :: string
  authToken :: string
  payload :: "Payload option"

text \<open>
  Modelled from the spec: the declaration of \<open>ServerMessage\<close> (module
  \<open>types/ServerMessage\<close>) is not among the sources; the three cases are those the class
  builds. \<open>sendChat\<close> is called with \<open>payload.message\<close>, which may be \<open>undefined\<close>, and
  \<open>sendCellUpdate\<close> reads \<open>board[row][col]\<close>, which may be \<open>undefined\<close>; both fields
  are therefore optional in the model.
\<close>

datatype ServerMessage =
    Chat "string option"
  | CellUpdate int int "Cell option"
  | SyncBoard Board

datatype readyState = CONNECTING | OPEN | CLOSING | CLOSED

type_synonym WebSocket = nat

record Room =
  name :: string
  game :: string
  password :: string
  slug :: string
  clients :: "(WebSocket \<times> readyState) list"
  board :: Board

text \<open>
  The sockets of the websocket server are numbered; \<open>clients\<close> is the server's client
  set, each socket with the \<open>readyState\<close> that \<open>sendServerMessage\<close> reads.

  The frame handed to the \<open>message\<close> listener is a \<open>Buffer\<close>; \<open>message.toString()\<close>
  is its text.
\<close>

datatype RawData = Buffer string

fun toString :: "RawData \<Rightarrow> string" where
  "toString (Buffer s) = s"

text \<open>
  \<open>!message\<close> in the \<open>chat\<close> case tests the frame object. A \<open>Buffer\<close> is an object, and
  every object is truthy, whatever it holds.
\<close>

fun truthy :: "RawData \<Rightarrow> bool" where
  "truthy (Buffer s) = True"

text \<open>
  What a run of the listener leaves behind: the room, and the frames handed to
  \<open>send\<close>, socket by socket, in the order of the calls.
\<close>

type_synonym sent = "(WebSocket \<times> ServerMessage) list"

type_synonym world = "Room \<times> sent"

section \<open>The initial board\<close>

definition initialBoard :: Board where
  "initialBoard =
    [ [ \<lparr>goal = ''Collect 5 things'', colors = []\<rparr>,
        \<lparr>goal = ''Talk to 10 people'', colors = []\<rparr>,
        \<lparr>goal = ''A pointy device'', colors = []\<rparr>,
        \<lparr>goal = ''Obtain a hammer'', colors = []\<rparr>,
        \<lparr>goal = ''YELL'', colors = []\<rparr> ],
      [ \<lparr>goal = ''10 Wells'', colors = []\<rparr>,
        \<lparr>goal = ''15 flames'', colors = []\<rparr>,
        \<lparr>goal = ''Beat the game'', colors = []\<rparr>,
        \<lparr>goal = ''Die 10 times'', colors = []\<rparr>,
        \<lparr>goal = ''Beat 5-2'', colors = []\<rparr> ],
      [ \<lparr>goal = ''Beat 3-5'', colors = []\<rparr>,
        \<lparr>goal = ''Discover Persia'', colors = []\<rparr>,
        \<lparr>goal = ''Invent Religion'', colors = []\<rparr>,
        \<lparr>goal = ''C O N Q U E S T'', colors = []\<rparr>,
        \<lparr>goal = ''this is a really long goal name because sometimes these will exist and it needs to be tested against'',
         colors = []\<rparr> ],
      [ \<lparr>goal = ''Return to Madagascar'', colors = []\<rparr>,
        \<lparr>goal = ''Morph Ball'', colors = []\<rparr>,
        \<lparr>goal = ''500 HP'', colors = []\<rparr>,
        \<lparr>goal = ''50 coins'', colors = []\<rparr>,
        \<lparr>goal = ''Have a civil war'', colors = []\<rparr> ],
      [ \<lparr>goal = ''Game over'', colors = []\<rparr>,
        \<lparr>goal = ''Kill 300 enemies'', colors = []\<rparr>,
        \<lparr>goal = ''Explosives'', colors = []\<rparr>,
        \<lparr>goal = ''Compass'', colors = []\<rparr>,
        \<lparr>goal = ''Roads'', colors = []\<rparr> ] ]"

text \<open>The constructor: the websocket server starts with no client.\<close>

definition newRoom :: "string \<Rightarrow> string \<Rightarrow> string \<Rightarrow> Room" where
  "newRoom n g s =
     \<lparr>name = n, game = g, password = ''password'', slug = s,
      clients = [], board = initialBoard\<rparr>"

section \<open>Array access and rendering of numbers\<close>

text \<open>
  \<open>xs[i]\<close> for a number \<open>i\<close>: the element when \<open>i\<close> is an index of the array,
  \<open>undefined\<close> otherwise (negative indices included).
\<close>

definition index :: "'a list \<Rightarrow> int \<Rightarrow> 'a option" where
  "index xs i = (if 0 \<le> i \<and> i < int (length xs) then Some (xs ! nat i) else None)"

text \<open>
  \<open>board[r][c]\<close> as the \<open>mark\<close> and \<open>unmark\<close> cases use it, on the way to \<open>.colors\<close>:
  reading a property of \<open>undefined\<close> throws a TypeError, be it \<open>board[r]\<close> that is
  undefined (then \<open>[c]\<close> throws) or \<open>board[r][c]\<close> (then \<open>.colors\<close> throws).
\<close>

definition cellAt :: "Board \<Rightarrow> int \<Rightarrow> int \<Rightarrow> error + Cell" where
  "cellAt b r c =
     (case index b r of
        None \<Rightarrow> Inl TypeError
      | Some rw \<Rightarrow> (case index rw c of None \<Rightarrow> Inl TypeError | Some cell \<Rightarrow> Inr cell))"

text \<open>The assignment \<open>board[r][c].colors = cs\<close> (and \<open>push\<close>), on a cell that exists.\<close>

definition setColors :: "Board \<Rightarrow> int \<Rightarrow> int \<Rightarrow> string list \<Rightarrow> Board" where
  "setColors b r c cs =
     b[nat r := (b ! nat r)[nat c := (b ! nat r ! nat c)\<lparr>colors := cs\<rparr>]]"

fun digits :: "nat \<Rightarrow> string" where
  "digits n =
     (if n < 10 then [''0123456789'' ! n]
      else digits (n div 10) @ [''0123456789'' ! (n mod 10)])"

declare digits.simps [simp del]

text \<open>
  \<open>${row}\<close> in a template string: the decimal rendering of an integer. (The templates are
  only reached with indices of the board, far below the \<open>10^21\<close> from which JavaScript
  switches to exponent notation.)
\<close>

definition numberToString :: "int \<Rightarrow> string" where
  "numberToString i = (if i < 0 then CHR ''-'' # digits (nat (- i)) else digits (nat i))"

section \<open>Sending\<close>

text \<open>\<open>ws.send(JSON.stringify(m))\<close> on one socket.\<close>

definition send :: "WebSocket \<Rightarrow> ServerMessage \<Rightarrow> world \<Rightarrow> world" where
  "send ws m w = (fst w, snd w @ [(ws, m)])"

text \<open>
  \<open>sendServerMessage\<close>: the frame goes to every client whose \<open>readyState\<close> is \<open>OPEN\<close>,
  in the order of the client set.
\<close>

definition sendServerMessage :: "ServerMessage \<Rightarrow> world \<Rightarrow> world" where
  "sendServerMessage m w =
     (fst w, snd w @ map (\<lambda>cl. (fst cl, m)) (filter (\<lambda>cl. snd cl = OPEN) (clients (fst w))))"

definition sendChat :: "string option \<Rightarrow> world \<Rightarrow> world" where
  "sendChat text = sendServerMessage (Chat text)"

text \<open>
  \<open>sendCellUpdate\<close> reads \<open>this.board.board[row][col]\<close> again: a TypeError when the row
  does not exist, and the cell (or \<open>undefined\<close>) otherwise. The first component of the
  result is the exception thrown, if any.
\<close>

definition sendCellUpdate :: "int \<Rightarrow> int \<Rightarrow> world \<Rightarrow> error option \<times> world" where
  "sendCellUpdate r c w =
     (case index (board (fst w)) r of
        None \<Rightarrow> (Some TypeError, w)
      | Some rw \<Rightarrow> (None, sendServerMessage (CellUpdate r c (index rw c)) w))"

text \<open>
  \<open>ws.close()\<close> starts the closing handshake: an open socket becomes \<open>CLOSING\<close>.
\<close>

definition close :: "WebSocket \<Rightarrow> world \<Rightarrow> world" where
  "close ws w =
     ((fst w)\<lparr>clients :=
         map (\<lambda>cl. if fst cl = ws \<and> snd cl = OPEN then (ws, CLOSING) else cl) (clients (fst w))\<rparr>,
      snd w)"

section \<open>The message listener\<close>

text \<open>
  The cases of the \<open>switch\<close>. Each returns the exception it throws (if any) together
  with the world as it is at that moment, so that a mutation or a frame that precedes a
  throw would stay visible.
\<close>

definition joinCase :: "WebSocket \<Rightarrow> Identity \<Rightarrow> world \<Rightarrow> error option \<times> world" where
  "joinCase ws identity w =
     (None, sendChat (Some (nickname identity @ '' has joined.''))
              (send ws (SyncBoard (board (fst w))) w))"

definition leaveCase :: "WebSocket \<Rightarrow> Identity \<Rightarrow> world \<Rightarrow> error option \<times> world" where
  "leaveCase ws identity w =
     (None, close ws (sendChat (Some (nickname identity @ '' has left.'')) w))"

definition markCase :: "Identity \<Rightarrow> RoomAction \<Rightarrow> world \<Rightarrow> error option \<times> world" where
  "markCase identity act w =
     (case payload act of
        None \<Rightarrow> (Some TypeError, w)
      | Some p \<Rightarrow>
          (case row p of
             None \<Rightarrow> (None, w)
           | Some r \<Rightarrow>
               (case col p of
                  None \<Rightarrow> (None, w)
                | Some c \<Rightarrow>
                    (case cellAt (board (fst w)) r c of
                       Inl e \<Rightarrow> (Some e, w)
                     | Inr cell \<Rightarrow>
                         if color identity \<in> set (colors cell) then (None, w)
                         else
                           (case sendCellUpdate r c
                                   ((fst w)\<lparr>board := setColors (board (fst w)) r c
                                                       (colors cell @ [color identity])\<rparr>,
                                    snd w) of
                              (Some e, w') \<Rightarrow> (Some e, w')
                            | (None, w') \<Rightarrow>
                                (None, sendChat
                                         (Some (nickname identity @ '' is marking ('' @
                                                numberToString r @ '','' @
                                                numberToString c @ '')'')) w'))))))"

definition unmarkCase :: "Identity \<Rightarrow> RoomAction \<Rightarrow> world \<Rightarrow> error option \<times> world" where
  "unmarkCase identity act w =
     (case payload act of
        None \<Rightarrow> (Some TypeError, w)
      | Some p \<Rightarrow>
          (case row p of
             None \<Rightarrow> (None, w)
           | Some r \<Rightarrow>
               (case col p of
                  None \<Rightarrow> (None, w)
                | Some c \<Rightarrow>
                    (case cellAt (board (fst w)) r c of
                       Inl e \<Rightarrow> (Some e, w)
                     | Inr cell \<Rightarrow>
                         (case sendCellUpdate r c
                                 ((fst w)\<lparr>board := setColors (board (fst w)) r c
                                                     (filter (\<lambda>x. x \<noteq> color identity)
                                                        (colors cell))\<rparr>,
                                  snd w) of
                            (Some e, w') \<Rightarrow> (Some e, w')
                          | (None, w') \<Rightarrow>
                              (None, sendChat
                                       (Some (nickname identity @ '' is unmarking ('' @
                                              numberToString r @ '','' @
                                              numberToString c @ '')'')) w'))))))"

text \<open>
  The \<open>chat\<close> case. The guard is \<open>if (!message) return\<close>, and \<open>message\<close> there is the
  listener's argument, the raw frame; the text of the chat line is \<open>chatMessage\<close>.
\<close>

definition chatCase :: "RawData \<Rightarrow> RoomAction \<Rightarrow> world \<Rightarrow> error option \<times> world" where
  "chatCase msg act w =
     (case payload act of
        None \<Rightarrow> (Some TypeError, w)
      | Some p \<Rightarrow> if \<not> truthy msg then (None, w) else (None, sendChat (message p) w))"

text \<open>
  The body of the \<open>try\<close> block: resolve the identity, then switch on the action. A
  \<open>switch\<close> without \<open>default\<close> does nothing for any other action.
\<close>

definition tryBody ::
  "(string \<Rightarrow> error + Identity) \<Rightarrow> WebSocket \<Rightarrow> RawData \<Rightarrow> RoomAction \<Rightarrow> world
     \<Rightarrow> error option \<times> world" where
  "tryBody verifyRoomToken ws msg act w =
     (case verifyRoomToken (authToken act) of
        Inl e \<Rightarrow> (Some e, w)
      | Inr identity \<Rightarrow>
          if action act = ''join'' then joinCase ws identity w
          else if action act = ''leave'' then leaveCase ws identity w
          else if action act = ''mark'' then markCase identity act w
          else if action act = ''unmark'' then unmarkCase identity act w
          else if action act = ''chat'' then chatCase msg act w
          else (None, w))"

text \<open>
  The listener \<open>ws.on('message', ...)\<close>. \<open>JSON.parse\<close> is called before the \<open>try\<close> block is
  entered: what it throws leaves the listener (\<open>Inl\<close>). What the body of the \<open>try\<close>
  throws is caught, and the listener returns with the world as it is then.
\<close>

definition onMessage ::
  "(string \<Rightarrow> error + RoomAction) \<Rightarrow> (string \<Rightarrow> error + Identity) \<Rightarrow> WebSocket \<Rightarrow> RawData
     \<Rightarrow> Room \<Rightarrow> error + world" where
  "onMessage JSON_parse verifyRoomToken ws msg room =
     (case JSON_parse (toString msg) of
        Inl e \<Rightarrow> Inl e
      | Inr act \<Rightarrow> Inr (snd (tryBody verifyRoomToken ws msg act (room, []))))"

section \<open>The other listeners, and runs of the room\<close>

text \<open>
  A new connection is in the client set, open, when the \<open>connection\<close> listener runs and
  broadcasts \<open>join\<close>; a closed socket has left the set when its \<open>close\<close> listener
  broadcasts \<open>leave\<close>; the server's own \<open>close\<close> broadcasts \<open>leave\<close> once more.
\<close>

definition onConnection :: "WebSocket \<Rightarrow> Room \<Rightarrow> world" where
  "onConnection ws room =
     sendChat (Some ''join'')
       (room\<lparr>clients := filter (\<lambda>cl. fst cl \<noteq> ws) (clients room) @ [(ws, OPEN)]\<rparr>, [])"

definition onClose :: "WebSocket \<Rightarrow> Room \<Rightarrow> world" where
  "onClose ws room =
     sendChat (Some ''leave'')
       (room\<lparr>clients := filter (\<lambda>cl. fst cl \<noteq> ws) (clients room)\<rparr>, [])"

definition onServerClose :: "Room \<Rightarrow> world" where
  "onServerClose room = sendChat (Some ''leave'') (room, [])"

datatype event =
    Connection WebSocket
  | Message WebSocket RawData
  | Close WebSocket
  | ServerClose

fun step ::
  "(string \<Rightarrow> error + RoomAction) \<Rightarrow> (string \<Rightarrow> error + Identity) \<Rightarrow> event \<Rightarrow> Room
     \<Rightarrow> error + world" where
  "step JSON_parse verifyRoomToken (Connection ws) room = Inr (onConnection ws room)"
| "step JSON_parse verifyRoomToken (Message ws msg) room =
     onMessage JSON_parse verifyRoomToken ws msg room"
| "step JSON_parse verifyRoomToken (Close ws) room = Inr (onClose ws room)"
| "step JSON_parse verifyRoomToken ServerClose room = Inr (onServerClose room)"

text \<open>
  The room handles its events one at a time, in arrival order. An exception that leaves
  a listener is uncaught: the run ends there.
\<close>

fun run ::
  "(string \<Rightarrow> error + RoomAction) \<Rightarrow> (string \<Rightarrow> error + Identity) \<Rightarrow> event list \<Rightarrow> Room
     \<Rightarrow> error + world" where
  "run JSON_parse verifyRoomToken [] room = Inr (room, [])"
| "run JSON_parse verifyRoomToken (e # es) room =
     (case step JSON_parse verifyRoomToken e room of
        Inl x \<Rightarrow> Inl x
      | Inr (room1, out1) \<Rightarrow>
          (case run JSON_parse verifyRoomToken es room1 of
             Inl x \<Rightarrow> Inl x
           | Inr (room2, out2) \<Rightarrow> Inr (room2, out1 @ out2)))"

text \<open>
  Reading a result: the colors of cell \<open>(r, c)\<close> in the room a run ends in (\<open>None\<close> when
  the run ended in an uncaught exception or the cell does not exist), and the broadcast
  of one message as a list of frames.
\<close>

definition colorsAt :: "Board \<Rightarrow> int \<Rightarrow> int \<Rightarrow> string list option" where
  "colorsAt b r c = (case cellAt b r c of Inl e \<Rightarrow> None | Inr cell \<Rightarrow> Some (colors cell))"

definition colorsAfter :: "error + world \<Rightarrow> int \<Rightarrow> int \<Rightarrow> string list option" where
  "colorsAfter res r c =
     (case res of Inl e \<Rightarrow> None | Inr w \<Rightarrow> colorsAt (board (fst w)) r c)"

definition broadcast :: "Room \<Rightarrow> ServerMessage \<Rightarrow> sent" where
  "broadcast room m = map (\<lambda>cl. (fst cl, m)) (filter (\<lambda>cl. snd cl = OPEN) (clients room))"

definition colorsUnique :: "Board \<Rightarrow> bool" where
  "colorsUnique b = (\<forall>rw \<in> set b. \<forall>cell \<in> set rw. distinct (colors cell))"


section \<open>Sample collaborators and a sample room\<close>

text \<open>
  To run the listener on concrete frames, the two collaborators are instantiated: a
  resolver that knows two tokens, and a decoder given by a table of frames. Every text
  outside the table is rejected, as \<open>JSON.parse\<close> rejects a text that is not JSON.
\<close>

definition sampleVerify :: "string \<Rightarrow> error + Identity" where
  "sampleVerify t =
     (if t = ''tokenA'' then Inr \<lparr>nickname = ''alice'', color = ''red''\<rparr>
      else if t = ''tokenB'' then Inr \<lparr>nickname = ''bob'', color = ''blue''\<rparr>
      else Inl InvalidToken)"

definition sampleFrames :: "(string \<times> RoomAction) list" where
  "sampleFrames =
    [ (''A join'', \<lparr>action = ''join'', authToken = ''tokenA'', payload = None\<rparr>),
      (''X join'', \<lparr>action = ''join'', authToken = ''expired'', payload = None\<rparr>),
      (''A mark 0 0'',
         \<lparr>action = ''mark'', authToken = ''tokenA'',
          payload = Some \<lparr>row = Some 0, col = Some 0, message = None\<rparr>\<rparr>),
      (''B mark 0 0'',
         \<lparr>action = ''mark'', authToken = ''tokenB'',
          payload = Some \<lparr>row = Some 0, col = Some 0, message = None\<rparr>\<rparr>),
      (''B unmark 0 0'',
         \<lparr>action = ''unmark'', authToken = ''tokenB'',
          payload = Some \<lparr>row = Some 0, col = Some 0, message = None\<rparr>\<rparr>),
      (''A mark 0'',
         \<lparr>action = ''mark'', authToken = ''tokenA'',
          payload = Some \<lparr>row = Some 0, col = None, message = None\<rparr>\<rparr>),
      (''A mark 7 0'',
         \<lparr>action = ''mark'', authToken = ''tokenA'',
          payload = Some \<lparr>row = Some 7, col = Some 0, message = None\<rparr>\<rparr>),
      (''A chat'',
         \<lparr>action = ''chat'', authToken = ''tokenA'',
          payload = Some \<lparr>row = None, col = None, message = None\<rparr>\<rparr>),
      (''A chat bare'', \<lparr>action = ''chat'', authToken = ''tokenA'', payload = None\<rparr>),
      (''B leave'', \<lparr>action = ''leave'', authToken = ''tokenB'', payload = None\<rparr>) ]"

definition sampleParse :: "string \<Rightarrow> error + RoomAction" where
  "sampleParse s = (case map_of sampleFrames s of None \<Rightarrow> Inl SyntaxError | Some a \<Rightarrow> Inr a)"

text \<open>
  A room in play: sockets 1 and 2 are open, socket 3 is closing, and \<open>red\<close> has marked
  cell \<open>(0, 0)\<close>.
\<close>

definition sampleRoom :: Room where
  "sampleRoom =
     (newRoom ''demo'' ''game'' ''demo'')
       \<lparr>clients := [(1, OPEN), (2, OPEN), (3, CLOSING)],
        board := setColors initialBoard 0 0 [''red'']\<rparr>"

section \<open>Board access\<close>

lemma index_Some_iff:
  "index xs i = Some x \<longleftrightarrow> 0 \<le> i \<and> i < int (length xs) \<and> x = xs ! nat i"
  by (auto simp: index_def)

lemma index_None_iff: "index xs i = None \<longleftrightarrow> \<not> (0 \<le> i \<and> i < int (length xs))"
  by (simp add: index_def)

lemma cellAt_Inr_iff:
  "cellAt b r c = Inr cell \<longleftrightarrow>
     0 \<le> r \<and> r < int (length b) \<and> 0 \<le> c \<and> c < int (length (b ! nat r)) \<and>
     cell = b ! nat r ! nat c"
  by (auto simp: cellAt_def index_def)

lemma cellAt_Inl_iff:
  "cellAt b r c = Inl e \<longleftrightarrow>
     e = TypeError \<and>
     \<not> (0 \<le> r \<and> r < int (length b) \<and> 0 \<le> c \<and> c < int (length (b ! nat r)))"
  by (auto simp: cellAt_def index_def)

lemma length_setColors: "length (setColors b r c cs) = length b"
  by (simp add: setColors_def)

lemma cellAt_setColors:
  assumes "cellAt b r c = Inr cell"
  shows "cellAt (setColors b r c cs) r' c' =
           (if r' = r \<and> c' = c then Inr (cell\<lparr>colors := cs\<rparr>) else cellAt b r' c')"
proof -
  from assms have rb: "0 \<le> r" "r < int (length b)" "nat r < length b"
    and cb: "0 \<le> c" "c < int (length (b ! nat r))" "nat c < length (b ! nat r)"
    and cell: "cell = b ! nat r ! nat c"
    by (auto simp: cellAt_Inr_iff)
  have neq: "nat x = nat y \<longleftrightarrow> x = y" if "0 \<le> x" "0 \<le> y" for x y :: int
    using that by auto
  show ?thesis
    using rb cb cell
    by (auto simp: cellAt_def index_def setColors_def nth_list_update neq)
qed

lemma index_setColors_row:
  assumes "cellAt b r c = Inr cell"
  shows "\<exists>rw. index (setColors b r c cs) r = Some rw \<and> index rw c = Some (cell\<lparr>colors := cs\<rparr>)"
  using assms by (auto simp: cellAt_Inr_iff index_def setColors_def)

lemma sendCellUpdate_setColors:
  assumes "cellAt (board room) r c = Inr cell"
  shows "sendCellUpdate r c (room\<lparr>board := setColors (board room) r c cs\<rparr>, out) =
           (None, room\<lparr>board := setColors (board room) r c cs\<rparr>,
                  out @ broadcast room (CellUpdate r c (Some (cell\<lparr>colors := cs\<rparr>))))"
  using assms
  by (auto simp: cellAt_Inr_iff index_def setColors_def sendCellUpdate_def
      sendServerMessage_def broadcast_def)


lemma sendChat_eq: "sendChat text (room, out) = (room, out @ broadcast room (Chat text))"
  by (simp add: sendChat_def sendServerMessage_def broadcast_def)

lemma broadcast_board_update [simp]: "broadcast (room\<lparr>board := b\<rparr>) m = broadcast room m"
  by (simp add: broadcast_def)

lemma markCase_present:
  assumes "payload act = Some p" "row p = Some r" "col p = Some c"
    and "cellAt (board room) r c = Inr cell" "color identity \<in> set (colors cell)"
  shows "markCase identity act (room, out) = (None, room, out)"
  using assms by (simp add: markCase_def)

lemma markCase_fresh:
  assumes "payload act = Some p" "row p = Some r" "col p = Some c"
    and "cellAt (board room) r c = Inr cell" "color identity \<notin> set (colors cell)"
  shows "markCase identity act (room, out) =
           (None, room\<lparr>board := setColors (board room) r c (colors cell @ [color identity])\<rparr>,
            out @ broadcast room (CellUpdate r c (Some (cell\<lparr>colors := colors cell @ [color identity]\<rparr>)))
                @ broadcast room (Chat (Some (nickname identity @ '' is marking ('' @
                                  numberToString r @ '','' @ numberToString c @ '')''))))"
  using assms
  by (simp add: markCase_def sendCellUpdate_setColors sendChat_eq)

lemma unmarkCase_cell:
  assumes "payload act = Some p" "row p = Some r" "col p = Some c"
    and "cellAt (board room) r c = Inr cell"
  shows "unmarkCase identity act (room, out) =
           (None, room\<lparr>board := setColors (board room) r c
                                    (filter (\<lambda>x. x \<noteq> color identity) (colors cell))\<rparr>,
            out @ broadcast room (CellUpdate r c
                     (Some (cell\<lparr>colors := filter (\<lambda>x. x \<noteq> color identity) (colors cell)\<rparr>)))
                @ broadcast room (Chat (Some (nickname identity @ '' is unmarking ('' @
                                  numberToString r @ '','' @ numberToString c @ '')''))))"
  using assms
  by (simp add: unmarkCase_def sendCellUpdate_setColors sendChat_eq)

lemma markCase_no_cell:
  assumes "payload act = Some p" "row p = Some r" "col p = Some c"
    and "cellAt (board room) r c = Inl e"
  shows "markCase identity act (room, out) = (Some e, room, out)"
  using assms by (simp add: markCase_def)

lemma unmarkCase_no_cell:
  assumes "payload act = Some p" "row p = Some r" "col p = Some c"
    and "cellAt (board room) r c = Inl e"
  shows "unmarkCase identity act (room, out) = (Some e, room, out)"
  using assms by (simp add: unmarkCase_def)

lemma markCase_no_coords:
  assumes "\<forall>p. payload act = Some p \<longrightarrow> row p = None \<or> col p = None"
  shows "snd (markCase identity act w) = w"
  using assms by (auto simp: markCase_def split: option.splits)

lemma unmarkCase_no_coords:
  assumes "\<forall>p. payload act = Some p \<longrightarrow> row p = None \<or> col p = None"
  shows "snd (unmarkCase identity act w) = w"
  using assms by (auto simp: unmarkCase_def split: option.splits)

lemma onMessage_decoded:
  "JSON_parse (toString msg) = Inr act \<Longrightarrow>
   onMessage JSON_parse verifyRoomToken ws msg room =
     Inr (snd (tryBody verifyRoomToken ws msg act (room, [])))"
  by (simp add: onMessage_def)

lemma tryBody_mark:
  "verifyRoomToken (authToken act) = Inr identity \<Longrightarrow> action act = ''mark'' \<Longrightarrow>
   tryBody verifyRoomToken ws msg act w = markCase identity act w"
  by (simp add: tryBody_def)

lemma tryBody_unmark:
  "verifyRoomToken (authToken act) = Inr identity \<Longrightarrow> action act = ''unmark'' \<Longrightarrow>
   tryBody verifyRoomToken ws msg act w = unmarkCase identity act w"
  by (simp add: tryBody_def)



lemma setColors_same:
  assumes "cellAt b r c = Inr cell"
  shows "setColors b r c (colors cell) = b"
  using assms by (auto simp: cellAt_Inr_iff setColors_def)

lemma tryBody_keeps_world_on_bad_token:
  "verifyRoomToken (authToken act) = Inl e \<Longrightarrow>
   tryBody verifyRoomToken ws msg act w = (Some e, w)"
  by (simp add: tryBody_def)

lemma digits_0: "digits 0 = ''0''"
  by (simp add: digits.simps)

lemma numberToString_0: "numberToString 0 = ''0''"
  by (simp add: numberToString_def digits_0)

lemma sampleRoom_clients: "clients sampleRoom = [(1, OPEN), (2, OPEN), (3, CLOSING)]"
  by (simp add: sampleRoom_def)

lemma sampleRoom_cell:
  "cellAt (board sampleRoom) 0 0 = Inr \<lparr>goal = ''Collect 5 things'', colors = [''red'']\<rparr>"
  by (simp add: sampleRoom_def initialBoard_def setColors_def cellAt_def index_def)

lemma sampleRoom_broadcast: "broadcast sampleRoom m = [(1, m), (2, m)]"
  by (simp add: broadcast_def sampleRoom_clients)

section \<open>Decoding and authentication failures\<close>

text \<open>
  Claim C1 says that a frame which cannot be decoded is dropped silently, the decode
  error being caught at the dispatch boundary. In the listener \<open>JSON.parse\<close> stands one
  line above the \<open>try\<close>: whatever it throws is not caught and leaves the listener. The
  theorem states this behaviour of the code.
\<close>

theorem undecodable_frame_leaves_listener:
  assumes "JSON_parse (toString msg) = Inl e"
  shows "onMessage JSON_parse verifyRoomToken ws msg room = Inl e"
  using assms by (simp add: onMessage_def)

theorem undecodable_frame_leaves_listener_witness:
  "sampleParse (toString (Buffer ''{'')) = Inl SyntaxError \<and>
   onMessage sampleParse sampleVerify 1 (Buffer ''{'') sampleRoom = Inl SyntaxError"
proof -
  have p: "sampleParse (toString (Buffer ''{'')) = Inl SyntaxError"
    by (simp add: sampleParse_def sampleFrames_def)
  show ?thesis
    by (rule conjI [OF p
          undecodable_frame_leaves_listener
            [where JSON_parse = sampleParse and msg = "Buffer ''{''" and e = SyntaxError, OF p]])
qed

text \<open>
  Once the frame is decoded, nothing leaves the listener: every exception of the
  \<open>try\<close> block is caught.
\<close>

lemma decoded_frame_never_throws:
  assumes "JSON_parse (toString msg) = Inr act"
  shows "\<exists>w. onMessage JSON_parse verifyRoomToken ws msg room = Inr w"
  using assms by (simp add: onMessage_def)

text \<open>
  Claim C2: an action of any kind whose token does not resolve to an identity produces
  no outbound frame at all and leaves the room, its board included, as it was.
\<close>

theorem unresolved_token_is_dropped:
  assumes "JSON_parse (toString msg) = Inr act"
    and "verifyRoomToken (authToken act) = Inl e"
  shows "onMessage JSON_parse verifyRoomToken ws msg room = Inr (room, [])"
  using assms by (simp add: onMessage_def tryBody_keeps_world_on_bad_token)

theorem unresolved_token_is_dropped_witness:
  "sampleParse (toString (Buffer ''X join'')) =
     Inr \<lparr>action = ''join'', authToken = ''expired'', payload = None\<rparr> \<and>
   sampleVerify (authToken \<lparr>action = ''join'', authToken = ''expired'', payload = None\<rparr>) =
     Inl InvalidToken \<and>
   onMessage sampleParse sampleVerify 1 (Buffer ''X join'') sampleRoom = Inr (sampleRoom, [])"
proof -
  have p: "sampleParse (toString (Buffer ''X join'')) =
             Inr \<lparr>action = ''join'', authToken = ''expired'', payload = None\<rparr>"
    by (simp add: sampleParse_def sampleFrames_def)
  have v: "sampleVerify (authToken \<lparr>action = ''join'', authToken = ''expired'', payload = None\<rparr>) =
             Inl InvalidToken"
    by (simp add: sampleVerify_def)
  show ?thesis
    by (intro conjI p v
          unresolved_token_is_dropped
            [where JSON_parse = sampleParse and verifyRoomToken = sampleVerify
               and msg = "Buffer ''X join''" and e = InvalidToken, OF p v])
qed


section \<open>Marking a cell that already carries the color\<close>

lemma mark_present_is_dropped:
  assumes "JSON_parse (toString msg) = Inr act" "action act = ''mark''"
    and "payload act = Some p" "row p = Some r" "col p = Some c"
    and "verifyRoomToken (authToken act) = Inr identity"
    and "cellAt (board room) r c = Inr cell" "color identity \<in> set (colors cell)"
  shows "onMessage JSON_parse verifyRoomToken ws msg room = Inr (room, [])"
  using assms by (simp add: onMessage_decoded tryBody_mark markCase_present)

text \<open>
  Claim C3 says that a mark of a cell on which the color of the identity is already
  present leaves the board unchanged and still emits a \<open>cellUpdate\<close> and a \<open>chat\<close>
  frame. The listener returns at the \<open>includes\<close> guard, before \<open>push\<close> and before both
  sends: in the sample room, where \<open>red\<close> is on cell \<open>(0, 0)\<close> and two sockets are open,
  the mark of \<open>(0, 0)\<close> by \<open>red\<close> sends nothing.
\<close>

theorem repeated_mark_counterexample:
  "cellAt (board sampleRoom) 0 0 = Inr \<lparr>goal = ''Collect 5 things'', colors = [''red'']\<rparr> \<and>
   sampleVerify ''tokenA'' = Inr \<lparr>nickname = ''alice'', color = ''red''\<rparr> \<and>
   clients sampleRoom = [(1, OPEN), (2, OPEN), (3, CLOSING)] \<and>
   onMessage sampleParse sampleVerify 1 (Buffer ''A mark 0 0'') sampleRoom = Inr (sampleRoom, [])"
  by (simp add: sampleRoom_cell sampleRoom_clients sampleVerify_def sampleParse_def
      sampleFrames_def onMessage_def tryBody_def markCase_def)

text \<open>
  Claim C3, amended: a mark with a valid token of an in-bounds cell on which the color
  of the identity is already present leaves the board unchanged and emits nothing,
  neither a \<open>cellUpdate\<close> nor a \<open>chat\<close> frame.
\<close>

theorem repeated_mark_changes_and_sends_nothing:
  assumes "JSON_parse (toString msg) = Inr act" "action act = ''mark''"
    and "payload act = Some p" "row p = Some r" "col p = Some c"
    and "verifyRoomToken (authToken act) = Inr identity"
    and "colorsAt (board room) r c = Some cs" "color identity \<in> set cs"
  shows "onMessage JSON_parse verifyRoomToken ws msg room = Inr (room, []) \<and>
         colorsAfter (onMessage JSON_parse verifyRoomToken ws msg room) r c = Some cs"
proof -
  from assms(7) obtain cell where cell: "cellAt (board room) r c = Inr cell" "colors cell = cs"
    by (auto simp: colorsAt_def split: sum.splits)
  with assms have "onMessage JSON_parse verifyRoomToken ws msg room = Inr (room, [])"
    by (simp add: mark_present_is_dropped)
  then show ?thesis using assms(7) by (simp add: colorsAfter_def)
qed

theorem repeated_mark_changes_and_sends_nothing_witness:
  "colorsAt (board sampleRoom) 0 0 = Some [''red''] \<and>
   onMessage sampleParse sampleVerify 2 (Buffer ''A mark 0 0'') sampleRoom = Inr (sampleRoom, []) \<and>
   colorsAfter (onMessage sampleParse sampleVerify 2 (Buffer ''A mark 0 0'') sampleRoom) 0 0 =
     Some [''red'']"
proof -
  let ?p = "\<lparr>row = Some 0, col = Some 0, message = None\<rparr>"
  let ?act = "\<lparr>action = ''mark'', authToken = ''tokenA'', payload = Some ?p\<rparr>"
  let ?alice = "\<lparr>nickname = ''alice'', color = ''red''\<rparr>"
  have h1: "sampleParse (toString (Buffer ''A mark 0 0'')) = Inr ?act"
    by (simp add: sampleParse_def sampleFrames_def)
  have h2: "action ?act = ''mark''" and h3: "payload ?act = Some ?p"
    and h4: "row ?p = Some 0" and h5: "col ?p = Some 0"
    by simp_all
  have h6: "sampleVerify (authToken ?act) = Inr ?alice"
    by (simp add: sampleVerify_def)
  have h7: "colorsAt (board sampleRoom) 0 0 = Some [''red'']"
    by (simp add: colorsAt_def sampleRoom_cell)
  have h8: "color ?alice \<in> set [''red'']"
    by simp
  from repeated_mark_changes_and_sends_nothing
         [where JSON_parse = sampleParse and verifyRoomToken = sampleVerify
            and msg = "Buffer ''A mark 0 0''" and ws = 2 and room = sampleRoom,
          OF h1 h2 h3 h4 h5 h6 h7 h8] h7
  show ?thesis by blast
qed

text \<open>
  Claim C4: a mark with a valid token of an in-bounds cell on which the color of the
  identity is already present is dropped silently: no \<open>cellUpdate\<close>, no \<open>chat\<close>, and the
  room, its board included, is as before.
\<close>

theorem mark_already_present_dropped_silently:
  assumes "JSON_parse (toString msg) = Inr act" "action act = ''mark''"
    and "payload act = Some p" "row p = Some r" "col p = Some c"
    and "verifyRoomToken (authToken act) = Inr identity"
    and "cellAt (board room) r c = Inr cell" "color identity \<in> set (colors cell)"
  shows "onMessage JSON_parse verifyRoomToken ws msg room = Inr (room, [])"
  using assms by (rule mark_present_is_dropped)

theorem mark_already_present_dropped_silently_witness:
  "cellAt (board sampleRoom) 0 0 = Inr \<lparr>goal = ''Collect 5 things'', colors = [''red'']\<rparr> \<and>
   onMessage sampleParse sampleVerify 3 (Buffer ''A mark 0 0'') sampleRoom = Inr (sampleRoom, [])"
proof -
  let ?p = "\<lparr>row = Some 0, col = Some 0, message = None\<rparr>"
  let ?act = "\<lparr>action = ''mark'', authToken = ''tokenA'', payload = Some ?p\<rparr>"
  let ?alice = "\<lparr>nickname = ''alice'', color = ''red''\<rparr>"
  let ?cell = "\<lparr>goal = ''Collect 5 things'', colors = [''red'']\<rparr>"
  have h1: "sampleParse (toString (Buffer ''A mark 0 0'')) = Inr ?act"
    by (simp add: sampleParse_def sampleFrames_def)
  have h2: "action ?act = ''mark''" and h3: "payload ?act = Some ?p"
    and h4: "row ?p = Some 0" and h5: "col ?p = Some 0"
    by simp_all
  have h6: "sampleVerify (authToken ?act) = Inr ?alice"
    by (simp add: sampleVerify_def)
  have h7: "cellAt (board sampleRoom) 0 0 = Inr ?cell"
    by (rule sampleRoom_cell)
  have h8: "color ?alice \<in> set (colors ?cell)"
    by simp
  show ?thesis
    by (intro conjI h7
          mark_already_present_dropped_silently
            [where JSON_parse = sampleParse and verifyRoomToken = sampleVerify
               and msg = "Buffer ''A mark 0 0''" and ws = 3 and room = sampleRoom,
             OF h1 h2 h3 h4 h5 h6 h7 h8])
qed


section \<open>Unmarking\<close>

text \<open>
  Claim C6: an unmark with a valid token and with row and column of an existing cell
  removes the color of the identity from that cell, if present, and touches nothing
  else: the other colors of the cell stay, in their order, and every other cell is as
  before; it is a no-op on the board when the color is absent. In both cases one
  \<open>cellUpdate\<close> carrying the cell as it is afterwards and one \<open>chat\<close> line are broadcast.
\<close>

theorem unmark_removes_color_and_broadcasts:
  assumes "JSON_parse (toString msg) = Inr act" "action act = ''unmark''"
    and "payload act = Some p" "row p = Some r" "col p = Some c"
    and "verifyRoomToken (authToken act) = Inr identity"
    and "cellAt (board room) r c = Inr cell"
  shows "onMessage JSON_parse verifyRoomToken ws msg room =
           Inr (room\<lparr>board := setColors (board room) r c
                                  (filter (\<lambda>x. x \<noteq> color identity) (colors cell))\<rparr>,
                broadcast room
                  (CellUpdate r c
                     (Some (cell\<lparr>colors := filter (\<lambda>x. x \<noteq> color identity) (colors cell)\<rparr>))) @
                broadcast room
                  (Chat (Some (nickname identity @ '' is unmarking ('' @
                               numberToString r @ '','' @ numberToString c @ '')'')))) \<and>
         (\<forall>r' c'. cellAt (setColors (board room) r c
                            (filter (\<lambda>x. x \<noteq> color identity) (colors cell))) r' c' =
                   (if r' = r \<and> c' = c
                    then Inr (cell\<lparr>colors := filter (\<lambda>x. x \<noteq> color identity) (colors cell)\<rparr>)
                    else cellAt (board room) r' c')) \<and>
         set (filter (\<lambda>x. x \<noteq> color identity) (colors cell)) =
           set (colors cell) - {color identity} \<and>
         (color identity \<notin> set (colors cell) \<longrightarrow>
            setColors (board room) r c (filter (\<lambda>x. x \<noteq> color identity) (colors cell)) =
              board room)"
proof (intro conjI allI impI)
  show "onMessage JSON_parse verifyRoomToken ws msg room =
           Inr (room\<lparr>board := setColors (board room) r c
                                  (filter (\<lambda>x. x \<noteq> color identity) (colors cell))\<rparr>,
                broadcast room
                  (CellUpdate r c
                     (Some (cell\<lparr>colors := filter (\<lambda>x. x \<noteq> color identity) (colors cell)\<rparr>))) @
                broadcast room
                  (Chat (Some (nickname identity @ '' is unmarking ('' @
                               numberToString r @ '','' @ numberToString c @ '')''))))"
    using assms by (simp add: onMessage_decoded tryBody_unmark unmarkCase_cell)
next
  fix r' c'
  show "cellAt (setColors (board room) r c
                 (filter (\<lambda>x. x \<noteq> color identity) (colors cell))) r' c' =
          (if r' = r \<and> c' = c
           then Inr (cell\<lparr>colors := filter (\<lambda>x. x \<noteq> color identity) (colors cell)\<rparr>)
           else cellAt (board room) r' c')"
    using assms(7) by (rule cellAt_setColors)
next
  show "set (filter (\<lambda>x. x \<noteq> color identity) (colors cell)) =
          set (colors cell) - {color identity}"
    by auto
next
  assume "color identity \<notin> set (colors cell)"
  then have "filter (\<lambda>x. x \<noteq> color identity) (colors cell) = colors cell"
    by (auto simp: filter_id_conv)
  then show "setColors (board room) r c (filter (\<lambda>x. x \<noteq> color identity) (colors cell)) =
               board room"
    using assms(7) by (simp add: setColors_same)
qed

theorem unmark_removes_color_and_broadcasts_witness:
  "cellAt (board sampleRoom) 0 0 = Inr \<lparr>goal = ''Collect 5 things'', colors = [''red'']\<rparr> \<and>
   onMessage sampleParse sampleVerify 2 (Buffer ''B unmark 0 0'') sampleRoom =
     Inr (sampleRoom,
          [(1, CellUpdate 0 0 (Some \<lparr>goal = ''Collect 5 things'', colors = [''red'']\<rparr>)),
           (2, CellUpdate 0 0 (Some \<lparr>goal = ''Collect 5 things'', colors = [''red'']\<rparr>)),
           (1, Chat (Some ''bob is unmarking (0,0)'')),
           (2, Chat (Some ''bob is unmarking (0,0)''))])"
proof -
  let ?p = "\<lparr>row = Some 0, col = Some 0, message = None\<rparr>"
  let ?act = "\<lparr>action = ''unmark'', authToken = ''tokenB'', payload = Some ?p\<rparr>"
  let ?bob = "\<lparr>nickname = ''bob'', color = ''blue''\<rparr>"
  let ?cell = "\<lparr>goal = ''Collect 5 things'', colors = [''red'']\<rparr>"
  have h1: "sampleParse (toString (Buffer ''B unmark 0 0'')) = Inr ?act"
    by (simp add: sampleParse_def sampleFrames_def)
  have h2: "action ?act = ''unmark''" and h3: "payload ?act = Some ?p"
    and h4: "row ?p = Some 0" and h5: "col ?p = Some 0"
    by simp_all
  have h6: "sampleVerify (authToken ?act) = Inr ?bob"
    by (simp add: sampleVerify_def)
  have h7: "cellAt (board sampleRoom) 0 0 = Inr ?cell"
    by (rule sampleRoom_cell)
  have same: "sampleRoom\<lparr>board := setColors (board sampleRoom) 0 0 [''red'']\<rparr> = sampleRoom"
    using setColors_same [OF h7] by simp
  from unmark_removes_color_and_broadcasts
         [where JSON_parse = sampleParse and verifyRoomToken = sampleVerify
            and msg = "Buffer ''B unmark 0 0''" and ws = 2 and room = sampleRoom,
          OF h1 h2 h3 h4 h5 h6 h7]
  have "onMessage sampleParse sampleVerify 2 (Buffer ''B unmark 0 0'') sampleRoom =
     Inr (sampleRoom,
          [(1, CellUpdate 0 0 (Some ?cell)), (2, CellUpdate 0 0 (Some ?cell)),
           (1, Chat (Some ''bob is unmarking (0,0)'')),
           (2, Chat (Some ''bob is unmarking (0,0)''))])"
    by (simp add: sampleRoom_broadcast numberToString_0 same)
  with h7 show ?thesis by blast
qed

section \<open>Missing and out-of-range coordinates\<close>

text \<open>
  Claim C7: a mark or an unmark whose payload omits \<open>row\<close> or \<open>col\<close> sends nothing and
  changes nothing, whatever the token resolves to (a valid identity included).
\<close>

theorem missing_coordinates_dropped:
  assumes "JSON_parse (toString msg) = Inr act"
    and "action act = ''mark'' \<or> action act = ''unmark''"
    and "\<forall>p. payload act = Some p \<longrightarrow> row p = None \<or> col p = None"
  shows "onMessage JSON_parse verifyRoomToken ws msg room = Inr (room, [])"
proof (cases "verifyRoomToken (authToken act)")
  case (Inl e)
  with assms(1) show ?thesis
    by (simp add: onMessage_decoded tryBody_keeps_world_on_bad_token)
next
  case (Inr identity)
  from assms(2) show ?thesis
  proof
    assume "action act = ''mark''"
    with Inr assms(1,3) show ?thesis
      by (simp add: onMessage_decoded tryBody_mark markCase_no_coords)
  next
    assume "action act = ''unmark''"
    with Inr assms(1,3) show ?thesis
      by (simp add: onMessage_decoded tryBody_unmark unmarkCase_no_coords)
  qed
qed

theorem missing_coordinates_dropped_witness:
  "sampleVerify ''tokenA'' = Inr \<lparr>nickname = ''alice'', color = ''red''\<rparr> \<and>
   onMessage sampleParse sampleVerify 1 (Buffer ''A mark 0'') sampleRoom = Inr (sampleRoom, [])"
proof -
  let ?p = "\<lparr>row = Some 0, col = None, message = None\<rparr>"
  let ?act = "\<lparr>action = ''mark'', authToken = ''tokenA'', payload = Some ?p\<rparr>"
  have h1: "sampleParse (toString (Buffer ''A mark 0'')) = Inr ?act"
    by (simp add: sampleParse_def sampleFrames_def)
  have h2: "action ?act = ''mark'' \<or> action ?act = ''unmark''"
    by simp
  have h3: "\<forall>p. payload ?act = Some p \<longrightarrow> row p = None \<or> col p = None"
    by simp
  have v: "sampleVerify ''tokenA'' = Inr \<lparr>nickname = ''alice'', color = ''red''\<rparr>"
    by (simp add: sampleVerify_def)
  show ?thesis
    by (intro conjI v
          missing_coordinates_dropped
            [where JSON_parse = sampleParse and verifyRoomToken = sampleVerify
               and msg = "Buffer ''A mark 0''" and ws = 1 and room = sampleRoom,
             OF h1 h2 h3])
qed

text \<open>
  Claim C9: a mark or an unmark with a valid token whose row or column is present and
  out of range throws at the cell access, inside the \<open>try\<close>; the exception is caught,
  nothing is sent, nothing is changed, and the listener returns normally.
\<close>

theorem out_of_range_dropped:
  assumes "JSON_parse (toString msg) = Inr act"
    and "action act = ''mark'' \<or> action act = ''unmark''"
    and "payload act = Some p" "row p = Some r" "col p = Some c"
    and "verifyRoomToken (authToken act) = Inr identity"
    and "\<not> (0 \<le> r \<and> r < int (length (board room)) \<and>
             0 \<le> c \<and> c < int (length (board room ! nat r)))"
  shows "onMessage JSON_parse verifyRoomToken ws msg room = Inr (room, [])"
proof -
  from assms(7) have no_cell: "cellAt (board room) r c = Inl TypeError"
    by (simp add: cellAt_Inl_iff)
  from assms(2) show ?thesis
  proof
    assume "action act = ''mark''"
    with assms no_cell show ?thesis
      by (simp add: onMessage_decoded tryBody_mark markCase_no_cell)
  next
    assume "action act = ''unmark''"
    with assms no_cell show ?thesis
      by (simp add: onMessage_decoded tryBody_unmark unmarkCase_no_cell)
  qed
qed

theorem out_of_range_dropped_witness:
  "length (board sampleRoom) = 5 \<and>
   onMessage sampleParse sampleVerify 1 (Buffer ''A mark 7 0'') sampleRoom = Inr (sampleRoom, [])"
proof -
  let ?p = "\<lparr>row = Some 7, col = Some 0, message = None\<rparr>"
  let ?act = "\<lparr>action = ''mark'', authToken = ''tokenA'', payload = Some ?p\<rparr>"
  let ?alice = "\<lparr>nickname = ''alice'', color = ''red''\<rparr>"
  have h1: "sampleParse (toString (Buffer ''A mark 7 0'')) = Inr ?act"
    by (simp add: sampleParse_def sampleFrames_def)
  have h2: "action ?act = ''mark'' \<or> action ?act = ''unmark''"
    by simp
  have h3: "payload ?act = Some ?p" and h4: "row ?p = Some 7" and h5: "col ?p = Some 0"
    by simp_all
  have h6: "sampleVerify (authToken ?act) = Inr ?alice"
    by (simp add: sampleVerify_def)
  have len: "length (board sampleRoom) = 5"
    by (simp add: sampleRoom_def length_setColors initialBoard_def)
  have h7: "\<not> (0 \<le> (7::int) \<and> 7 < int (length (board sampleRoom)) \<and>
               0 \<le> (0::int) \<and> 0 < int (length (board sampleRoom ! nat 7)))"
    by (simp add: len)
  show ?thesis
    by (intro conjI len
          out_of_range_dropped
            [where JSON_parse = sampleParse and verifyRoomToken = sampleVerify
               and msg = "Buffer ''A mark 7 0''" and ws = 1 and room = sampleRoom,
             OF h1 h2 h3 h4 h5 h6 h7])
qed

section \<open>Joining and chatting\<close>

text \<open>
  Claim C8: a join whose token resolves sends exactly one \<open>syncBoard\<close> frame, holding
  the whole board as it is then, to the socket the join came from and to no other, and
  after it broadcasts exactly one \<open>chat\<close> line, the nickname followed by
  \<open>has joined.\<close>, to every open socket. The room is unchanged.
\<close>

theorem join_syncs_sender_then_announces:
  assumes "JSON_parse (toString msg) = Inr act" "action act = ''join''"
    and "verifyRoomToken (authToken act) = Inr identity"
  shows "onMessage JSON_parse verifyRoomToken ws msg room =
           Inr (room, (ws, SyncBoard (board room)) #
                      broadcast room (Chat (Some (nickname identity @ '' has joined.''))))"
  using assms
  by (simp add: onMessage_def tryBody_def joinCase_def send_def sendChat_def
      sendServerMessage_def broadcast_def)

theorem join_syncs_sender_then_announces_witness:
  "onMessage sampleParse sampleVerify 2 (Buffer ''A join'') sampleRoom =
     Inr (sampleRoom,
          [(2, SyncBoard (board sampleRoom)),
           (1, Chat (Some ''alice has joined.'')),
           (2, Chat (Some ''alice has joined.''))])"
proof -
  let ?act = "\<lparr>action = ''join'', authToken = ''tokenA'', payload = None\<rparr>"
  let ?alice = "\<lparr>nickname = ''alice'', color = ''red''\<rparr>"
  have h1: "sampleParse (toString (Buffer ''A join'')) = Inr ?act"
    by (simp add: sampleParse_def sampleFrames_def)
  have h2: "action ?act = ''join''"
    by simp
  have h3: "sampleVerify (authToken ?act) = Inr ?alice"
    by (simp add: sampleVerify_def)
  from join_syncs_sender_then_announces
         [where JSON_parse = sampleParse and verifyRoomToken = sampleVerify
            and msg = "Buffer ''A join''" and ws = 2 and room = sampleRoom,
          OF h1 h2 h3]
  show ?thesis
    by (simp add: sampleRoom_broadcast)
qed

text \<open>
  Claim C10 says that every chat whose token resolves is broadcast, also when the
  payload has no \<open>message\<close>, because the guard of the \<open>chat\<close> case tests the raw frame
  and never returns. That holds whenever the action carries a payload object. A chat
  that carries no payload object at all does not reach the guard: the destructuring
  of \<open>action.payload\<close> throws, and the action is dropped.
\<close>

theorem chat_without_payload_counterexample:
  "sampleParse (toString (Buffer ''A chat bare'')) =
     Inr \<lparr>action = ''chat'', authToken = ''tokenA'', payload = None\<rparr> \<and>
   sampleVerify ''tokenA'' = Inr \<lparr>nickname = ''alice'', color = ''red''\<rparr> \<and>
   clients sampleRoom = [(1, OPEN), (2, OPEN), (3, CLOSING)] \<and>
   onMessage sampleParse sampleVerify 1 (Buffer ''A chat bare'') sampleRoom = Inr (sampleRoom, [])"
  by (simp add: sampleRoom_clients sampleVerify_def sampleParse_def sampleFrames_def
      onMessage_def tryBody_def chatCase_def)

text \<open>
  Claim C10, amended: a chat whose token resolves and whose payload object is present
  is broadcast also when the payload has no \<open>message\<close>. The guard of the \<open>chat\<close> case
  tests the raw frame, which is truthy, so it never returns; the frame broadcast to
  every open socket is a \<open>chat\<close> whose message is exactly the payload's: undefined when
  the payload omits it, the empty string when it is empty, and the supplied string
  otherwise.
\<close>

theorem chat_is_broadcast_whatever_the_message:
  assumes "JSON_parse (toString msg) = Inr act" "action act = ''chat''"
    and "verifyRoomToken (authToken act) = Inr identity"
    and "payload act = Some p"
  shows "onMessage JSON_parse verifyRoomToken ws msg room =
           Inr (room, broadcast room (Chat (message p)))"
  using assms
  by (cases msg)
     (simp add: onMessage_def tryBody_def chatCase_def sendChat_def sendServerMessage_def
        broadcast_def)

theorem chat_is_broadcast_whatever_the_message_witness:
  "onMessage sampleParse sampleVerify 1 (Buffer ''A chat'') sampleRoom =
     Inr (sampleRoom, [(1, Chat None), (2, Chat None)])"
proof -
  let ?p = "\<lparr>row = None, col = None, message = None\<rparr>"
  let ?act = "\<lparr>action = ''chat'', authToken = ''tokenA'', payload = Some ?p\<rparr>"
  let ?alice = "\<lparr>nickname = ''alice'', color = ''red''\<rparr>"
  have h1: "sampleParse (toString (Buffer ''A chat'')) = Inr ?act"
    by (simp add: sampleParse_def sampleFrames_def)
  have h2: "action ?act = ''chat''"
    by simp
  have h3: "sampleVerify (authToken ?act) = Inr ?alice"
    by (simp add: sampleVerify_def)
  have h4: "payload ?act = Some ?p"
    by simp
  from chat_is_broadcast_whatever_the_message
         [where JSON_parse = sampleParse and verifyRoomToken = sampleVerify
            and msg = "Buffer ''A chat''" and ws = 1 and room = sampleRoom,
          OF h1 h2 h3 h4]
  show ?thesis
    by (simp add: sampleRoom_broadcast)
qed

text \<open>
  In general: a chat without a payload object is dropped, whatever the token.
\<close>

lemma chat_without_payload_is_dropped:
  assumes "JSON_parse (toString msg) = Inr act" "action act = ''chat''"
    and "payload act = None"
  shows "onMessage JSON_parse verifyRoomToken ws msg room = Inr (room, [])"
  using assms
  by (cases "verifyRoomToken (authToken act)")
     (simp_all add: onMessage_def tryBody_def chatCase_def)

section \<open>Marks accumulate; a color is on a cell at most once\<close>

lemma colorsAt_Some_iff:
  "colorsAt b r c = Some cs \<longleftrightarrow> (\<exists>cell. cellAt b r c = Inr cell \<and> colors cell = cs)"
  by (auto simp: colorsAt_def split: sum.splits)

lemma colorsAt_setColors_same:
  "cellAt b r c = Inr cell \<Longrightarrow> colorsAt (setColors b r c cs) r c = Some cs"
  by (simp add: colorsAt_def cellAt_setColors)

lemma step_mark_colors:
  assumes "JSON_parse (toString msg) = Inr act" "action act = ''mark''"
    and "payload act = Some p" "row p = Some r" "col p = Some c"
    and "verifyRoomToken (authToken act) = Inr identity"
    and "colorsAt (board room) r c = Some cs"
  shows "\<exists>room1 out1.
           step JSON_parse verifyRoomToken (Message ws msg) room = Inr (room1, out1) \<and>
           colorsAt (board room1) r c =
             Some (if color identity \<in> set cs then cs else cs @ [color identity])"
proof -
  from assms(7) obtain cell where cell: "cellAt (board room) r c = Inr cell" "colors cell = cs"
    by (auto simp: colorsAt_Some_iff)
  show ?thesis
  proof (cases "color identity \<in> set cs")
    case True
    with assms cell
    have "step JSON_parse verifyRoomToken (Message ws msg) room = Inr (room, [])"
      by (simp add: mark_present_is_dropped)
    with True assms(7) show ?thesis by simp
  next
    case False
    with assms cell
    have "\<exists>out1. step JSON_parse verifyRoomToken (Message ws msg) room =
            Inr (room\<lparr>board := setColors (board room) r c (cs @ [color identity])\<rparr>, out1)"
      by (simp add: onMessage_decoded tryBody_mark markCase_fresh)
    moreover have "colorsAt (board (room\<lparr>board := setColors (board room) r c
                                                   (cs @ [color identity])\<rparr>)) r c =
                     Some (cs @ [color identity])"
      using cell by (simp add: colorsAt_setColors_same)
    ultimately show ?thesis using False by auto
  qed
qed

lemma run_single:
  "step JSON_parse verifyRoomToken e room = Inr (room1, out1) \<Longrightarrow>
   run JSON_parse verifyRoomToken [e] room = Inr (room1, out1)"
  by simp

lemma run_pair:
  "step JSON_parse verifyRoomToken e1 room = Inr (room1, out1) \<Longrightarrow>
   step JSON_parse verifyRoomToken e2 room1 = Inr (room2, out2) \<Longrightarrow>
   run JSON_parse verifyRoomToken [e1, e2] room = Inr (room2, out1 @ out2)"
  by simp

lemma two_marks_colors:
  assumes "JSON_parse (toString m1) = Inr a1" "action a1 = ''mark''"
    and "payload a1 = Some p1" "row p1 = Some r" "col p1 = Some c"
    and "verifyRoomToken (authToken a1) = Inr i1"
    and "JSON_parse (toString m2) = Inr a2" "action a2 = ''mark''"
    and "payload a2 = Some p2" "row p2 = Some r" "col p2 = Some c"
    and "verifyRoomToken (authToken a2) = Inr i2"
    and "colorsAt (board room) r c = Some cs"
  shows "colorsAfter (run JSON_parse verifyRoomToken [Message w1 m1, Message w2 m2] room) r c =
           Some (if color i2 \<in> set (if color i1 \<in> set cs then cs else cs @ [color i1])
                 then (if color i1 \<in> set cs then cs else cs @ [color i1])
                 else (if color i1 \<in> set cs then cs else cs @ [color i1]) @ [color i2])"
proof -
  from step_mark_colors
         [where JSON_parse = JSON_parse and verifyRoomToken = verifyRoomToken and ws = w1,
          OF assms(1-6) assms(13)]
  obtain room1 out1 where
    s1: "step JSON_parse verifyRoomToken (Message w1 m1) room = Inr (room1, out1)"
    and c1: "colorsAt (board room1) r c =
               Some (if color i1 \<in> set cs then cs else cs @ [color i1])"
    by blast
  from step_mark_colors
         [where JSON_parse = JSON_parse and verifyRoomToken = verifyRoomToken and ws = w2,
          OF assms(7-12) c1]
  obtain room2 out2 where
    s2: "step JSON_parse verifyRoomToken (Message w2 m2) room1 = Inr (room2, out2)"
    and c2: "colorsAt (board room2) r c =
               Some (if color i2 \<in> set (if color i1 \<in> set cs then cs else cs @ [color i1])
                     then (if color i1 \<in> set cs then cs else cs @ [color i1])
                     else (if color i1 \<in> set cs then cs else cs @ [color i1]) @ [color i2])"
    by blast
  from run_pair [OF s1 s2] c2 show ?thesis
    by (simp add: colorsAfter_def)
qed

lemma one_mark_colors:
  assumes "JSON_parse (toString m1) = Inr a1" "action a1 = ''mark''"
    and "payload a1 = Some p1" "row p1 = Some r" "col p1 = Some c"
    and "verifyRoomToken (authToken a1) = Inr i1"
    and "colorsAt (board room) r c = Some cs"
  shows "colorsAfter (run JSON_parse verifyRoomToken [Message w1 m1] room) r c =
           Some (if color i1 \<in> set cs then cs else cs @ [color i1])"
proof -
  from step_mark_colors
         [where JSON_parse = JSON_parse and verifyRoomToken = verifyRoomToken and ws = w1,
          OF assms]
  obtain room1 out1 where
    s1: "step JSON_parse verifyRoomToken (Message w1 m1) room = Inr (room1, out1)"
    and c1: "colorsAt (board room1) r c =
               Some (if color i1 \<in> set cs then cs else cs @ [color i1])"
    by blast
  from run_single [OF s1] c1 show ?thesis
    by (simp add: colorsAfter_def)
qed

subsection \<open>The invariant\<close>

lemma colorsUnique_initialBoard: "colorsUnique initialBoard"
  by (simp add: colorsUnique_def initialBoard_def)

lemma cellAt_in_board:
  assumes "cellAt b r c = Inr cell"
  shows "\<exists>rw \<in> set b. cell \<in> set rw"
proof -
  from assms have "nat r < length b" "nat c < length (b ! nat r)" "cell = b ! nat r ! nat c"
    by (auto simp: cellAt_Inr_iff)
  then show ?thesis
    by (metis nth_mem)
qed

lemma colorsUnique_setColors:
  assumes "colorsUnique b" "distinct cs"
  shows "colorsUnique (setColors b r c cs)"
proof (cases "nat r < length b")
  case False
  then show ?thesis using assms(1) by (simp add: setColors_def list_update_beyond not_less)
next
  case True
  then have rw: "b ! nat r \<in> set b" by simp
  show ?thesis
    unfolding colorsUnique_def setColors_def
  proof (intro ballI)
    fix rw cell
    assume rw': "rw \<in> set (b[nat r := (b ! nat r)[nat c := (b ! nat r ! nat c)\<lparr>colors := cs\<rparr>]])"
      and cell: "cell \<in> set rw"
    from rw' have "rw = (b ! nat r)[nat c := (b ! nat r ! nat c)\<lparr>colors := cs\<rparr>] \<or> rw \<in> set b"
      using set_update_subset_insert by fastforce
    then show "distinct (colors cell)"
    proof
      assume "rw \<in> set b"
      with cell assms(1) show ?thesis by (auto simp: colorsUnique_def)
    next
      assume "rw = (b ! nat r)[nat c := (b ! nat r ! nat c)\<lparr>colors := cs\<rparr>]"
      with cell have "cell = (b ! nat r ! nat c)\<lparr>colors := cs\<rparr> \<or> cell \<in> set (b ! nat r)"
        using set_update_subset_insert by fastforce
      then show ?thesis
      proof
        assume "cell = (b ! nat r ! nat c)\<lparr>colors := cs\<rparr>"
        with assms(2) show ?thesis by simp
      next
        assume "cell \<in> set (b ! nat r)"
        with rw assms(1) show ?thesis by (auto simp: colorsUnique_def)
      qed
    qed
  qed
qed

lemma markCase_colorsUnique:
  assumes "colorsUnique (board room)"
  shows "colorsUnique (board (fst (snd (markCase identity act (room, out)))))"
proof (cases "payload act")
  case None
  with assms show ?thesis by (simp add: markCase_def)
next
  case (Some p)
  show ?thesis
  proof (cases "row p")
    case None
    with Some assms show ?thesis by (simp add: markCase_def)
  next
    case r: (Some r)
    show ?thesis
    proof (cases "col p")
      case None
      with Some r assms show ?thesis by (simp add: markCase_def)
    next
      case c: (Some c)
      show ?thesis
      proof (cases "cellAt (board room) r c")
        case (Inl e)
        with Some r c assms show ?thesis by (simp add: markCase_no_cell)
      next
        case (Inr cell)
        then obtain rw where "rw \<in> set (board room)" "cell \<in> set rw"
          using cellAt_in_board by blast
        with assms have d: "distinct (colors cell)"
          by (auto simp: colorsUnique_def)
        show ?thesis
        proof (cases "color identity \<in> set (colors cell)")
          case True
          with Some r c Inr assms show ?thesis by (simp add: markCase_present)
        next
          case False
          with d have "distinct (colors cell @ [color identity])" by simp
          with assms have "colorsUnique (setColors (board room) r c (colors cell @ [color identity]))"
            by (rule colorsUnique_setColors)
          with Some r c Inr False show ?thesis by (simp add: markCase_fresh)
        qed
      qed
    qed
  qed
qed

lemma unmarkCase_colorsUnique:
  assumes "colorsUnique (board room)"
  shows "colorsUnique (board (fst (snd (unmarkCase identity act (room, out)))))"
proof (cases "payload act")
  case None
  with assms show ?thesis by (simp add: unmarkCase_def)
next
  case (Some p)
  show ?thesis
  proof (cases "row p")
    case None
    with Some assms show ?thesis by (simp add: unmarkCase_def)
  next
    case r: (Some r)
    show ?thesis
    proof (cases "col p")
      case None
      with Some r assms show ?thesis by (simp add: unmarkCase_def)
    next
      case c: (Some c)
      show ?thesis
      proof (cases "cellAt (board room) r c")
        case (Inl e)
        with Some r c assms show ?thesis by (simp add: unmarkCase_no_cell)
      next
        case (Inr cell)
        then obtain rw where "rw \<in> set (board room)" "cell \<in> set rw"
          using cellAt_in_board by blast
        with assms have "distinct (colors cell)"
          by (auto simp: colorsUnique_def)
        then have "distinct (filter (\<lambda>x. x \<noteq> color identity) (colors cell))" by simp
        with assms have "colorsUnique (setColors (board room) r c
                                         (filter (\<lambda>x. x \<noteq> color identity) (colors cell)))"
          by (rule colorsUnique_setColors)
        with Some r c Inr show ?thesis by (simp add: unmarkCase_cell)
      qed
    qed
  qed
qed

lemma tryBody_colorsUnique:
  assumes "colorsUnique (board room)"
  shows "colorsUnique (board (fst (snd (tryBody verifyRoomToken ws msg act (room, out)))))"
proof (cases "verifyRoomToken (authToken act)")
  case (Inl e)
  with assms show ?thesis by (simp add: tryBody_def)
next
  case (Inr identity)
  with assms show ?thesis
    by (simp add: tryBody_def markCase_colorsUnique unmarkCase_colorsUnique joinCase_def
        leaveCase_def chatCase_def sendChat_def sendServerMessage_def send_def close_def
        split: option.splits)
qed

lemma step_colorsUnique:
  assumes "colorsUnique (board room)"
    and "step JSON_parse verifyRoomToken e room = Inr (room1, out1)"
  shows "colorsUnique (board room1)"
proof (cases e)
  case (Message ws msg)
  with assms(2) have "\<exists>act. snd (tryBody verifyRoomToken ws msg act (room, [])) = (room1, out1)"
    by (auto simp: onMessage_def split: sum.splits)
  then obtain act where "snd (tryBody verifyRoomToken ws msg act (room, [])) = (room1, out1)"
    by blast
  then have "room1 = fst (snd (tryBody verifyRoomToken ws msg act (room, [])))"
    by simp
  with assms(1) show ?thesis by (simp add: tryBody_colorsUnique)
next
  case (Connection ws)
  with assms show ?thesis
    by (auto simp: onConnection_def sendChat_def sendServerMessage_def)
next
  case (Close ws)
  with assms show ?thesis
    by (auto simp: onClose_def sendChat_def sendServerMessage_def)
next
  case ServerClose
  with assms show ?thesis
    by (auto simp: onServerClose_def sendChat_def sendServerMessage_def)
qed

lemma run_colorsUnique:
  "colorsUnique (board room) \<Longrightarrow>
   run JSON_parse verifyRoomToken evs room = Inr (room', out) \<Longrightarrow>
   colorsUnique (board room')"
proof (induction evs arbitrary: room room' out)
  case Nil
  then show ?case by simp
next
  case (Cons e evs)
  from Cons.prems(2) obtain room1 out1 out2 where
    s: "step JSON_parse verifyRoomToken e room = Inr (room1, out1)"
    and r: "run JSON_parse verifyRoomToken evs room1 = Inr (room', out2)"
    by (auto split: sum.splits prod.splits)
  from Cons.prems(1) s have "colorsUnique (board room1)"
    by (rule step_colorsUnique)
  from Cons.IH [OF this r] show ?case .
qed


text \<open>
  Claim C5. Let two frames decode to marks of the same existing cell \<open>(r, c)\<close>, with
  tokens that resolve to identities of different colors, and let \<open>cs\<close> be the colors on
  the cell. Handling the two frames, in either order, ends with a cell whose color set
  is \<open>cs\<close> together with both colors; handling the first frame twice ends with the same
  colors on the cell as handling it once. And in every room reached from a new room by
  any sequence of events, no cell carries a color twice.
\<close>

theorem marks_commute_and_are_idempotent:
  "(JSON_parse (toString m1) = Inr a1 \<and> action a1 = ''mark'' \<and>
    payload a1 = Some p1 \<and> row p1 = Some r \<and> col p1 = Some c \<and>
    verifyRoomToken (authToken a1) = Inr i1 \<and>
    JSON_parse (toString m2) = Inr a2 \<and> action a2 = ''mark'' \<and>
    payload a2 = Some p2 \<and> row p2 = Some r \<and> col p2 = Some c \<and>
    verifyRoomToken (authToken a2) = Inr i2 \<and>
    color i1 \<noteq> color i2 \<and> colorsAt (board room) r c = Some cs \<longrightarrow>
      map_option set
        (colorsAfter (run JSON_parse verifyRoomToken [Message w1 m1, Message w2 m2] room) r c) =
        Some (set cs \<union> {color i1, color i2}) \<and>
      map_option set
        (colorsAfter (run JSON_parse verifyRoomToken [Message w2 m2, Message w1 m1] room) r c) =
        Some (set cs \<union> {color i1, color i2}) \<and>
      colorsAfter (run JSON_parse verifyRoomToken [Message w1 m1] room) r c =
        Some (if color i1 \<in> set cs then cs else cs @ [color i1]) \<and>
      colorsAfter (run JSON_parse verifyRoomToken [Message w1 m1, Message w2 m1] room) r c =
        colorsAfter (run JSON_parse verifyRoomToken [Message w1 m1] room) r c) \<and>
   (run JSON_parse verifyRoomToken evs (newRoom n g s) = Inr (room', out) \<longrightarrow>
      colorsUnique (board room'))"
proof (intro conjI impI)
  assume h: "JSON_parse (toString m1) = Inr a1 \<and> action a1 = ''mark'' \<and>
    payload a1 = Some p1 \<and> row p1 = Some r \<and> col p1 = Some c \<and>
    verifyRoomToken (authToken a1) = Inr i1 \<and>
    JSON_parse (toString m2) = Inr a2 \<and> action a2 = ''mark'' \<and>
    payload a2 = Some p2 \<and> row p2 = Some r \<and> col p2 = Some c \<and>
    verifyRoomToken (authToken a2) = Inr i2 \<and>
    color i1 \<noteq> color i2 \<and> colorsAt (board room) r c = Some cs"
  then have f1: "JSON_parse (toString m1) = Inr a1" "action a1 = ''mark''"
      "payload a1 = Some p1" "row p1 = Some r" "col p1 = Some c"
      "verifyRoomToken (authToken a1) = Inr i1"
    and f2: "JSON_parse (toString m2) = Inr a2" "action a2 = ''mark''"
      "payload a2 = Some p2" "row p2 = Some r" "col p2 = Some c"
      "verifyRoomToken (authToken a2) = Inr i2"
    and cs: "colorsAt (board room) r c = Some cs"
    by simp_all
  have once: "colorsAfter (run JSON_parse verifyRoomToken [Message w1 m1] room) r c =
                Some (if color i1 \<in> set cs then cs else cs @ [color i1])"
    by (rule one_mark_colors [where JSON_parse = JSON_parse and verifyRoomToken = verifyRoomToken, OF f1 cs])
  show "colorsAfter (run JSON_parse verifyRoomToken [Message w1 m1] room) r c =
          Some (if color i1 \<in> set cs then cs else cs @ [color i1])"
    by (rule once)
  show "map_option set
          (colorsAfter (run JSON_parse verifyRoomToken [Message w1 m1, Message w2 m2] room) r c) =
          Some (set cs \<union> {color i1, color i2})"
    unfolding two_marks_colors [where JSON_parse = JSON_parse and verifyRoomToken = verifyRoomToken, OF f1 f2 cs] by auto
  show "map_option set
          (colorsAfter (run JSON_parse verifyRoomToken [Message w2 m2, Message w1 m1] room) r c) =
          Some (set cs \<union> {color i1, color i2})"
    unfolding two_marks_colors [where JSON_parse = JSON_parse and verifyRoomToken = verifyRoomToken, OF f2 f1 cs] using h by auto
  show "colorsAfter (run JSON_parse verifyRoomToken [Message w1 m1, Message w2 m1] room) r c =
          colorsAfter (run JSON_parse verifyRoomToken [Message w1 m1] room) r c"
    unfolding two_marks_colors [where JSON_parse = JSON_parse and verifyRoomToken = verifyRoomToken, OF f1 f1 cs] once by simp
next
  assume "run JSON_parse verifyRoomToken evs (newRoom n g s) = Inr (room', out)"
  moreover have "colorsUnique (board (newRoom n g s))"
    by (simp add: newRoom_def colorsUnique_initialBoard)
  ultimately show "colorsUnique (board room')"
    by (rule run_colorsUnique [rotated])
qed


theorem marks_commute_and_are_idempotent_witness:
  "map_option set
     (colorsAfter (run sampleParse sampleVerify
        [Message 1 (Buffer ''A mark 0 0''), Message 2 (Buffer ''B mark 0 0'')]
        (newRoom ''demo'' ''game'' ''demo'')) 0 0) = Some {''red'', ''blue''} \<and>
   map_option set
     (colorsAfter (run sampleParse sampleVerify
        [Message 2 (Buffer ''B mark 0 0''), Message 1 (Buffer ''A mark 0 0'')]
        (newRoom ''demo'' ''game'' ''demo'')) 0 0) = Some {''red'', ''blue''} \<and>
   colorsAfter (run sampleParse sampleVerify
        [Message 1 (Buffer ''A mark 0 0'')] (newRoom ''demo'' ''game'' ''demo'')) 0 0 =
     Some [''red''] \<and>
   colorsAfter (run sampleParse sampleVerify
        [Message 1 (Buffer ''A mark 0 0''), Message 2 (Buffer ''A mark 0 0'')]
        (newRoom ''demo'' ''game'' ''demo'')) 0 0 =
     Some [''red''] \<and>
   colorsUnique
     (board ((newRoom ''demo'' ''game'' ''demo'')\<lparr>board := setColors initialBoard 0 0 [''red'']\<rparr>))"
proof -
  let ?p = "\<lparr>row = Some 0, col = Some 0, message = None\<rparr>"
  let ?a1 = "\<lparr>action = ''mark'', authToken = ''tokenA'', payload = Some ?p\<rparr>"
  let ?a2 = "\<lparr>action = ''mark'', authToken = ''tokenB'', payload = Some ?p\<rparr>"
  let ?alice = "\<lparr>nickname = ''alice'', color = ''red''\<rparr>"
  let ?bob = "\<lparr>nickname = ''bob'', color = ''blue''\<rparr>"
  let ?new = "newRoom ''demo'' ''game'' ''demo''"
  let ?marked = "?new\<lparr>board := setColors initialBoard 0 0 [''red'']\<rparr>"
  note T = marks_commute_and_are_idempotent
             [where JSON_parse = sampleParse and verifyRoomToken = sampleVerify
                and ?m1.0 = "Buffer ''A mark 0 0''" and ?m2.0 = "Buffer ''B mark 0 0''"
                and ?a1.0 = ?a1 and ?a2.0 = ?a2 and ?p1.0 = ?p and ?p2.0 = ?p
                and r = 0 and c = 0 and ?i1.0 = ?alice and ?i2.0 = ?bob
                and room = ?new and cs = "[]" and ?w1.0 = 1 and ?w2.0 = 2
                and evs = "[Message 1 (Buffer ''A mark 0 0'')]"
                and n = "''demo''" and g = "''game''" and s = "''demo''"
                and room' = ?marked and out = "[]"]
  have hyp1:
    "sampleParse (toString (Buffer ''A mark 0 0'')) = Inr ?a1 \<and> action ?a1 = ''mark'' \<and>
     payload ?a1 = Some ?p \<and> row ?p = Some 0 \<and> col ?p = Some 0 \<and>
     sampleVerify (authToken ?a1) = Inr ?alice \<and>
     sampleParse (toString (Buffer ''B mark 0 0'')) = Inr ?a2 \<and> action ?a2 = ''mark'' \<and>
     payload ?a2 = Some ?p \<and> row ?p = Some 0 \<and> col ?p = Some 0 \<and>
     sampleVerify (authToken ?a2) = Inr ?bob \<and>
     color ?alice \<noteq> color ?bob \<and> colorsAt (board ?new) 0 0 = Some []"
    by (simp add: sampleParse_def sampleFrames_def sampleVerify_def colorsAt_def cellAt_def
        index_def newRoom_def initialBoard_def)
  have hyp2:
    "run sampleParse sampleVerify [Message 1 (Buffer ''A mark 0 0'')] ?new = Inr (?marked, [])"
    by (simp add: sampleParse_def sampleFrames_def sampleVerify_def onMessage_def tryBody_def
        markCase_def cellAt_def index_def newRoom_def initialBoard_def setColors_def
        sendCellUpdate_def sendChat_def sendServerMessage_def)
  note A = conjunct1 [OF T, THEN mp, OF hyp1]
  note B = conjunct2 [OF T, THEN mp, OF hyp2]
  have once: "colorsAfter (run sampleParse sampleVerify
                [Message 1 (Buffer ''A mark 0 0'')] ?new) 0 0 = Some [''red'']"
    unfolding A [THEN conjunct2, THEN conjunct2, THEN conjunct1] by simp
  have twice: "colorsAfter (run sampleParse sampleVerify
                 [Message 1 (Buffer ''A mark 0 0''), Message 2 (Buffer ''A mark 0 0'')] ?new) 0 0 =
               Some [''red'']"
    unfolding A [THEN conjunct2, THEN conjunct2, THEN conjunct2] by (rule once)
  have ab: "map_option set
     (colorsAfter (run sampleParse sampleVerify
        [Message 1 (Buffer ''A mark 0 0''), Message 2 (Buffer ''B mark 0 0'')] ?new) 0 0) =
     Some {''red'', ''blue''}"
    unfolding A [THEN conjunct1] by simp
  have ba: "map_option set
     (colorsAfter (run sampleParse sampleVerify
        [Message 2 (Buffer ''B mark 0 0''), Message 1 (Buffer ''A mark 0 0'')] ?new) 0 0) =
     Some {''red'', ''blue''}"
    unfolding A [THEN conjunct2, THEN conjunct1] by simp
  show ?thesis
    by (intro conjI ab ba once twice B)
qed

subsection \<open>The grid keeps its goals and its shape\<close>

lemma goals_setColors: "map (map goal) (setColors b r c cs) = map (map goal) b"
proof (cases "nat r < length b")
  case False
  then show ?thesis by (simp add: setColors_def list_update_beyond not_less)
next
  case True
  have "map goal ((b ! nat r)[nat c := (b ! nat r ! nat c)\<lparr>colors := cs\<rparr>]) = map goal (b ! nat r)"
  proof (cases "nat c < length (b ! nat r)")
    case False
    then show ?thesis by (simp add: list_update_beyond not_less)
  next
    case True
    then show ?thesis by (simp add: map_update list_update_same_conv)
  qed
  with True show ?thesis
    by (simp add: setColors_def map_update list_update_same_conv)
qed

lemma markCase_goals:
  "map (map goal) (board (fst (snd (markCase identity act (room, out))))) = map (map goal) (board room)"
  by (auto simp: markCase_def sendCellUpdate_def sendChat_def sendServerMessage_def goals_setColors
      split: option.splits sum.splits prod.splits)

lemma unmarkCase_goals:
  "map (map goal) (board (fst (snd (unmarkCase identity act (room, out))))) = map (map goal) (board room)"
  by (auto simp: unmarkCase_def sendCellUpdate_def sendChat_def sendServerMessage_def goals_setColors
      split: option.splits sum.splits prod.splits)

lemma tryBody_goals:
  "map (map goal) (board (fst (snd (tryBody verifyRoomToken ws msg act (room, out))))) =
     map (map goal) (board room)"
  by (cases "verifyRoomToken (authToken act)")
     (simp_all add: tryBody_def markCase_goals unmarkCase_goals joinCase_def
        leaveCase_def chatCase_def sendChat_def sendServerMessage_def send_def close_def
        split: option.splits)

lemma step_goals:
  assumes "step JSON_parse verifyRoomToken e room = Inr (room1, out1)"
  shows "map (map goal) (board room1) = map (map goal) (board room)"
proof (cases e)
  case (Message ws msg)
  with assms have "\<exists>act. snd (tryBody verifyRoomToken ws msg act (room, [])) = (room1, out1)"
    by (auto simp: onMessage_def split: sum.splits)
  then obtain act where "snd (tryBody verifyRoomToken ws msg act (room, [])) = (room1, out1)"
    by blast
  then have "room1 = fst (snd (tryBody verifyRoomToken ws msg act (room, [])))"
    by simp
  then show ?thesis by (simp add: tryBody_goals)
next
  case (Connection ws)
  with assms show ?thesis
    by (auto simp: onConnection_def sendChat_def sendServerMessage_def)
next
  case (Close ws)
  with assms show ?thesis
    by (auto simp: onClose_def sendChat_def sendServerMessage_def)
next
  case ServerClose
  with assms show ?thesis
    by (auto simp: onServerClose_def sendChat_def sendServerMessage_def)
qed

lemma run_goals:
  "run JSON_parse verifyRoomToken evs room = Inr (room', out) \<Longrightarrow>
   map (map goal) (board room') = map (map goal) (board room)"
proof (induction evs arbitrary: room room' out)
  case Nil
  then show ?case by simp
next
  case (Cons e evs)
  from Cons.prems obtain room1 out1 out2 where
    s: "step JSON_parse verifyRoomToken e room = Inr (room1, out1)"
    and r: "run JSON_parse verifyRoomToken evs room1 = Inr (room', out2)"
    by (auto split: sum.splits prod.splits)
  from Cons.IH [OF r] step_goals [OF s] show ?case by simp
qed


lemma reached_board_shape:
  assumes "run JSON_parse verifyRoomToken evs (newRoom n g s) = Inr (room', out)"
  shows "map length (board room') = [5, 5, 5, 5, 5]"
proof -
  have "map length (board room') = map length (map (map goal) (board room'))"
    by (simp add: comp_def)
  also have "\<dots> = map length (map (map goal) initialBoard)"
    using run_goals [OF assms] by (simp add: newRoom_def)
  also have "\<dots> = [5, 5, 5, 5, 5]"
    by (simp add: initialBoard_def)
  finally show ?thesis .
qed

text \<open>
  In a room reached from a new room, the cells that exist are those of the 5 by 5 grid.
\<close>

lemma reached_cell_exists_iff:
  assumes "run JSON_parse verifyRoomToken evs (newRoom n g s) = Inr (room', out)"
  shows "(\<exists>cell. cellAt (board room') r c = Inr cell) \<longleftrightarrow> 0 \<le> r \<and> r < 5 \<and> 0 \<le> c \<and> c < 5"
proof -
  from reached_board_shape [OF assms]
  have shape: "map length (board room') = [5, 5, 5, 5, 5]" .
  have "length (board room') = length (map length (board room'))"
    by simp
  also have "\<dots> = 5"
    unfolding shape by simp
  finally have len: "length (board room') = 5" .
  have rows: "length (board room' ! i) = 5" if "i < 5" for i
  proof -
    from that len have "length (board room' ! i) = map length (board room') ! i"
      by simp
    also have "\<dots> = [5, 5, 5, 5, 5] ! i"
      by (simp add: shape)
    also have "\<dots> = 5"
    proof -
      from that have "i = 0 \<or> i = 1 \<or> i = 2 \<or> i = 3 \<or> i = 4" by arith
      then show ?thesis by auto
    qed
    finally show ?thesis .
  qed
  show ?thesis
  proof
    assume "\<exists>cell. cellAt (board room') r c = Inr cell"
    then have r: "0 \<le> r" "r < 5" and c: "0 \<le> c" "c < int (length (board room' ! nat r))"
      by (auto simp: cellAt_Inr_iff len)
    from r have "nat r < 5" by auto
    from rows [OF this] c r show "0 \<le> r \<and> r < 5 \<and> 0 \<le> c \<and> c < 5"
      by simp
  next
    assume b: "0 \<le> r \<and> r < 5 \<and> 0 \<le> c \<and> c < 5"
    then have "nat r < 5" by auto
    from rows [OF this] b len show "\<exists>cell. cellAt (board room') r c = Inr cell"
      by (simp add: cellAt_Inr_iff)
  qed
qed

text \<open>The sample room is reached from a new room.\<close>

lemma sampleRoom_is_reached:
  "run sampleParse sampleVerify
     [Connection 1, Connection 2, Connection 3, Message 1 (Buffer ''A mark 0 0''),
      Message 3 (Buffer ''B leave'')] (newRoom ''demo'' ''game'' ''demo'') =
   Inr (sampleRoom,
        [(1, Chat (Some ''join'')),
         (1, Chat (Some ''join'')), (2, Chat (Some ''join'')),
         (1, Chat (Some ''join'')), (2, Chat (Some ''join'')), (3, Chat (Some ''join'')),
         (1, CellUpdate 0 0 (Some \<lparr>goal = ''Collect 5 things'', colors = [''red'']\<rparr>)),
         (2, CellUpdate 0 0 (Some \<lparr>goal = ''Collect 5 things'', colors = [''red'']\<rparr>)),
         (3, CellUpdate 0 0 (Some \<lparr>goal = ''Collect 5 things'', colors = [''red'']\<rparr>)),
         (1, Chat (Some ''alice is marking (0,0)'')),
         (2, Chat (Some ''alice is marking (0,0)'')),
         (3, Chat (Some ''alice is marking (0,0)'')),
         (1, Chat (Some ''bob has left.'')), (2, Chat (Some ''bob has left.'')),
         (3, Chat (Some ''bob has left.''))])"
  by (simp add: sampleParse_def sampleFrames_def sampleVerify_def onMessage_def tryBody_def
      markCase_def leaveCase_def close_def cellAt_def index_def newRoom_def initialBoard_def
      setColors_def sendCellUpdate_def sendChat_def sendServerMessage_def onConnection_def
      sampleRoom_def numberToString_0)

end
